theory Spec2Isabelle
  imports Main
begin

section \<open>JavaScript values, errors and promise outcomes\<close>

text \<open>
  The library is written in JavaScript with callbacks and promises.  The embedding keeps
  three things of the language explicit: the dynamic type of an argument (\<open>typeof\<close>,
  truthiness), the error value a callback or a rejection carries, and whether a promise
  is ever settled at all.
\<close>

datatype jsval = JUndefined | JNull | JBool bool | JNum int | JStr string | JFunction | JObject

fun truthy :: "jsval \<Rightarrow> bool" where
  "truthy JUndefined = False"
| "truthy JNull = False"
| "truthy (JBool b) = b"
| "truthy (JNum n) = (n \<noteq> 0)"
| "truthy (JStr s) = (s \<noteq> [])"
| "truthy JFunction = True"
| "truthy JObject = True"

fun typeof :: "jsval \<Rightarrow> string" where
  "typeof JUndefined = ''undefined''"
| "typeof JNull = ''object''"
| "typeof (JBool b) = ''boolean''"
| "typeof (JNum n) = ''number''"
| "typeof (JStr s) = ''string''"
| "typeof JFunction = ''function''"
| "typeof JObject = ''object''"

text \<open>
  The five shared error objects of \<open>BaseDevice\<close> and \<open>DeviceSession\<close> are constructors of
  their own; \<open>Error m\<close> is \<open>new Error(m)\<close>, \<open>TypeError m\<close> an exception of the runtime,
  \<open>SystemError m\<close> an error object handed over by \<open>fs\<close> or \<open>child_process\<close>, and
  \<open>Thrown v\<close> a rejection whose reason is not an error object.
\<close>

datatype error =
    INVALID_SESSION
  | DEVICE_IS_LOCKED_ERROR
  | DEVICE_NOT_BOOTED_ERROR
  | DEVICE_NOT_READY_ERROR
  | DEVICE_ALREADY_BOOTED_ERROR
  | Error string
  | TypeError string
  | SystemError string
  | Thrown jsval

text \<open>
  A promise is resolved, rejected, or left pending for ever when no path of the code
  calls \<open>resolve\<close> or \<open>reject\<close>.  An exception thrown inside the executor of a
  promise rejects it; an exception thrown later, inside an asynchronous callback, settles
  nothing and escapes as an uncaught exception: \<open>Uncaught\<close>.
\<close>

datatype 'a outcome = Resolved 'a | Rejected error | Pending | Uncaught error

section \<open>DeviceSession.js: sessions and the session store\<close>

text \<open>
  A \<open>DeviceSession\<close> object closes over \<open>token\<close>, \<open>lastUsed\<close> and \<open>timeout\<close>.  Objects
  are compared by identity (\<open>session === this\<close>), so they live in a heap indexed by
  references; the module-level object \<open>sessions\<close> maps property keys to a stored value,
  which is \<open>null\<close> or a reference.
\<close>

type_synonym sref = nat

record DeviceSession =
  token :: "string option"
  lastUsed :: int
  timeout :: int

datatype slot = Null | Ref sref

record session_store =
  objects :: "sref \<Rightarrow> DeviceSession"
  allocated :: nat
  sessions :: "string \<rightharpoonup> slot"

text \<open>
  A string-or-null value used as a property key or in a string concatenation is
  converted to a string: \<open>sessions[null]\<close> reads and writes the key \<open>"null"\<close>.
\<close>

fun ToString :: "string option \<Rightarrow> string" where
  "ToString None = ''null''"
| "ToString (Some t) = t"

fun token_truthy :: "string option \<Rightarrow> bool" where
  "token_truthy None = False"
| "token_truthy (Some t) = (t \<noteq> [])"

fun slot_truthy :: "slot option \<Rightarrow> bool" where
  "slot_truthy (Some (Ref r)) = True"
| "slot_truthy (Some Null) = False"
| "slot_truthy None = False"

text \<open>
  \<open>config.deviceSessionTimeout\<close>, read with \<open>parseInt\<close>: \<open>None\<close> when the configuration
  is not an object or the value is not a number, and then the default of five minutes.
\<close>

definition configured_timeout :: "int option \<Rightarrow> int" where
  "configured_timeout cfg = (case cfg of Some t \<Rightarrow> t | None \<Rightarrow> 1000 * 60 * 5)"

text \<open>
  The constructor.  The token is the MD5 digest of the high-resolution clock, an input of
  the model; \<open>now\<close> is \<open>Date.now()\<close>.  The last statement of the constructor pushes the
  object into the store under its token.
\<close>

definition new_DeviceSession ::
  "string \<Rightarrow> int \<Rightarrow> int option \<Rightarrow> session_store \<Rightarrow> sref \<times> session_store" where
  "new_DeviceSession tok now cfg st =
     (let r = allocated st;
          self = \<lparr>token = Some tok, lastUsed = now, timeout = configured_timeout cfg\<rparr>
      in (r, st\<lparr>objects := (objects st)(r := self),
                allocated := Suc r,
                sessions := (sessions st)(tok \<mapsto> Ref r)\<rparr>))"

text \<open>
  \<open>destroy\<close> first sets \<open>token = null\<close> and only then writes and deletes
  \<open>sessions[token]\<close>, so the key it touches is \<open>"null"\<close>.
\<close>

definition destroy :: "sref \<Rightarrow> session_store \<Rightarrow> session_store" where
  "destroy r st =
     (let self = (objects st r)\<lparr>token := None\<rparr>;
          k = ToString (token self);
          written = (sessions st)(k \<mapsto> Null);
          deleted = written(k := None)
      in st\<lparr>objects := (objects st)(r := self), sessions := deleted\<rparr>)"

text \<open>
  \<open>validate\<close> returns the value of
  \<open>(Date.now() - lastUsed < timeout) && token && sessions[token]\<close>; the model returns
  its truthiness, which is all that \<open>validate\<close> itself and its callers look at.
\<close>

definition validate :: "int \<Rightarrow> sref \<Rightarrow> session_store \<Rightarrow> bool \<times> session_store" where
  "validate now r st =
     (let self = objects st r;
          isValid = (now - lastUsed self < timeout self
                     \<and> token_truthy (token self)
                     \<and> slot_truthy (sessions st (ToString (token self))))
      in if isValid
         then (True, st\<lparr>objects := (objects st)(r := self\<lparr>lastUsed := now\<rparr>)\<rparr>)
         else (False, destroy r st))"

definition compare :: "sref \<Rightarrow> sref \<Rightarrow> bool" where
  "compare self other = (other = self)"

text \<open>
  \<open>compareAndValidate\<close> is \<open>self.compare(session) && self.validate(done)\<close>.  The callback
  \<open>done\<close> is called by \<open>validate\<close> only, so the result records, beside the returned value,
  the argument the callback received, or \<open>None\<close> when it was never called.
\<close>

definition compareAndValidate ::
  "int \<Rightarrow> sref \<Rightarrow> sref \<Rightarrow> session_store \<Rightarrow> (bool \<times> bool option) \<times> session_store" where
  "compareAndValidate now self other st =
     (if compare self other
      then (let (v, st') = validate now self st in ((v, Some v), st'))
      else ((False, None), st))"

definition getToken :: "sref \<Rightarrow> session_store \<Rightarrow> string option" where
  "getToken r st = token (objects st r)"

definition getSessionByToken :: "string option \<Rightarrow> session_store \<Rightarrow> sref option" where
  "getSessionByToken tok st =
     (case sessions st (ToString tok) of Some (Ref r) \<Rightarrow> Some r | _ \<Rightarrow> None)"

definition empty_store :: session_store where
  "empty_store = \<lparr>objects = (\<lambda>_. \<lparr>token = None, lastUsed = 0, timeout = 0\<rparr>),
                  allocated = 0, sessions = Map.empty\<rparr>"

section \<open>Strings: \<open>toString\<close>, \<open>trim\<close>, \<open>split\<close> and \<open>parseInt\<close>\<close>

text \<open>
  The lock file is text.  Its content is written with \<open>process.pid.toString()\<close> and read
  back with \<open>toString('utf-8')\<close>, \<open>trim\<close>, \<open>split('.')\<close> and \<open>parseInt(_, 10)\<close>.  The
  code looks at the characters of this one string, so it is modelled as JavaScript has
  it: a list of UTF-16 code units, each a number.  \<open>js\<close> gives the code units of an
  ASCII literal.
\<close>

type_synonym jsstring = "nat list"

definition js :: "string \<Rightarrow> jsstring" where
  "js s = map of_char s"

definition digit_char :: "nat \<Rightarrow> char" where
  "digit_char d = char_of (48 + d)"

fun toString_nat :: "nat \<Rightarrow> string" where
  "toString_nat n =
     (if n < 10 then [digit_char n] else toString_nat (n div 10) @ [digit_char (n mod 10)])"

definition toString_int :: "int \<Rightarrow> string" where
  "toString_int i = (if i < 0 then CHR ''-'' # toString_nat (nat (- i)) else toString_nat (nat i))"

text \<open>
  The white space that \<open>trim\<close> and \<open>parseInt\<close> skip is the \<open>WhiteSpace\<close> and
  \<open>LineTerminator\<close> of ECMAScript: tab, line feed, vertical tab, form feed, carriage
  return, space, U+00A0, U+1680, U+2000 to U+200A, U+2028, U+2029, U+202F, U+205F, U+3000
  and the byte order mark U+FEFF.  (U+180E, a space separator of Unicode before version
  6.3 only, is not among them.)
\<close>

definition is_space :: "nat \<Rightarrow> bool" where
  "is_space c =
     (c \<in> set [0x09, 0x0A, 0x0B, 0x0C, 0x0D, 0x20, 0xA0, 0x1680, 0x2028, 0x2029, 0x202F,
                0x205F, 0x3000, 0xFEFF]
      \<or> (0x2000 \<le> c \<and> c \<le> 0x200A))"

definition is_digit :: "nat \<Rightarrow> bool" where
  "is_digit c = (48 \<le> c \<and> c \<le> 57)"

definition trim :: "jsstring \<Rightarrow> jsstring" where
  "trim s = rev (dropWhile is_space (rev (dropWhile is_space s)))"

fun split_on :: "'a \<Rightarrow> 'a list \<Rightarrow> 'a list list" where
  "split_on c [] = [[]]"
| "split_on c (x # xs) =
     (if x = c then [] # split_on c xs
      else (case split_on c xs of [] \<Rightarrow> [[x]] | p # ps \<Rightarrow> (x # p) # ps))"

fun nth_opt :: "'a list \<Rightarrow> nat \<Rightarrow> 'a option" where
  "nth_opt [] n = None"
| "nth_opt (x # xs) 0 = Some x"
| "nth_opt (x # xs) (Suc n) = nth_opt xs n"

text \<open>
  \<open>parseInt(_, 10)\<close> skips leading white space, reads an optional sign (\<open>-\<close> is 45,
  \<open>+\<close> is 43) and the longest run of decimal digits, and is \<open>NaN\<close> (\<open>None\<close>) when
  there is no digit or the argument is \<open>undefined\<close>.  The result is an unbounded
  integer; a JavaScript number is exact below \<open>2^53\<close> only, which the statements about
  the lock file assume of the numbers they compare.
\<close>

definition digits_value :: "jsstring \<Rightarrow> nat" where
  "digits_value ds = foldl (\<lambda>a c. 10 * a + (c - 48)) 0 ds"

definition parseInt :: "jsstring option \<Rightarrow> int option" where
  "parseInt arg =
     (case arg of
        None \<Rightarrow> None
      | Some s \<Rightarrow>
          (let s1 = dropWhile is_space s;
               negative = (case s1 of [] \<Rightarrow> False | c # cs \<Rightarrow> c = 45);
               s2 = (case s1 of [] \<Rightarrow> [] | c # cs \<Rightarrow> if c = 45 \<or> c = 43 then cs else s1);
               ds = takeWhile is_digit s2
           in if ds = [] then None
              else Some (if negative then - int (digits_value ds) else int (digits_value ds))))"

section \<open>BaseDevice.js: the lock file, sessions on a device and the guard\<close>

text \<open>
  What a device operation reads from its surroundings is collected in \<open>env\<close>: the pid of
  this process, whether \<open>utils.getProcessPathByPID\<close> finds a process for a pid (the pid
  read from the file may be \<open>NaN\<close>), the errors the file system reports (a read error
  other than \<open>ENOENT\<close>; a write error, which may depend on what is written), the result
  of each external command, and the paths of the \<open>adb\<close> and \<open>emulator\<close> executables.
\<close>

record exec_res =
  err :: "error option"
  stdout :: string
  stderr :: string

record env =
  process_pid :: nat
  getProcessPathByPID :: "int option \<Rightarrow> bool"
  readFile_error :: "error option"
  writeFile_error :: "jsstring \<Rightarrow> error option"
  exec_result :: "string \<Rightarrow> exec_res"
  ANDROID_SDK_ADB :: string
  ANDROID_SDK_EMULATOR :: string

text \<open>
  The device object: its public fields as far as the operations below use them, and the
  variables its methods close over (\<open>localLock\<close> and \<open>session\<close> in \<open>BaseDevice\<close>,
  \<open>orientation\<close> in \<open>AndroidDevice\<close> and in \<open>iOSSimulatorDevice\<close>).  The world is the
  device, the session store, the text of the device's lock file (\<open>None\<close> when the file
  does not exist) and the log of the external commands run so far.
\<close>

record device =
  dev_name :: string
  dev_id :: string
  udid :: string
  avdId :: string
  serial :: "string option"
  localLock :: bool
  session :: "sref option"
  orientation :: int

record world =
  dev :: device
  store :: session_store
  lock_file :: "jsstring option"
  execs :: "string list"

datatype read_result = ReadOk jsstring | ENOENT | ReadFailed error

definition readFile :: "env \<Rightarrow> world \<Rightarrow> read_result" where
  "readFile e w =
     (case readFile_error e of
        Some x \<Rightarrow> ReadFailed x
      | None \<Rightarrow> (case lock_file w of None \<Rightarrow> ENOENT | Some c \<Rightarrow> ReadOk c))"

definition writeFile :: "env \<Rightarrow> jsstring \<Rightarrow> world \<Rightarrow> error option \<times> world" where
  "writeFile e c w =
     (case writeFile_error e c of
        Some x \<Rightarrow> (Some x, w)
      | None \<Rightarrow> (None, w\<lparr>lock_file := Some c\<rparr>))"

definition exec :: "env \<Rightarrow> string \<Rightarrow> world \<Rightarrow> exec_res \<times> world" where
  "exec e cmd w = (exec_result e cmd, w\<lparr>execs := execs w @ [cmd]\<rparr>)"

record lock_status =
  locked :: bool
  pid :: "int option"

text \<open>
  What \<open>readLock\<close> hands to its callback: an error with \<open>null\<close> as the second argument
  (the read error), an error with no second argument (the two write errors), or a status.
\<close>

datatype lock_reply = ErrNull error | ErrOnly error | Status lock_status

definition unlocked_contents :: "env \<Rightarrow> jsstring" where
  "unlocked_contents e = js (''0.'' @ toString_nat (process_pid e))"

definition own_status :: "env \<Rightarrow> bool \<Rightarrow> lock_status" where
  "own_status e l = \<lparr>locked = l, pid = Some (int (process_pid e))\<rparr>"

text \<open>The status parsed from the text of the file; the code unit of \<open>.\<close> is 46.\<close>

definition parse_status :: "jsstring \<Rightarrow> lock_status" where
  "parse_status contents =
     (let parts = split_on 46 (trim contents)
      in \<lparr>locked = (if parseInt (nth_opt parts 0) = Some 0 then False else True),
          pid = parseInt (nth_opt parts 1)\<rparr>)"

text \<open>
  \<open>readLock\<close>.  With \<open>localLock\<close> set the file is not read.  A missing file is created
  unlocked.  A file locked by another pid is rewritten unlocked when no process has that
  pid.  (The test \<open>if(err)\<close> inside the liveness callback reads the \<open>err\<close> of
  \<open>readFile\<close>, which is null on this path.)
\<close>

definition readLock :: "env \<Rightarrow> world \<Rightarrow> lock_reply \<times> world" where
  "readLock e w =
     (if localLock (dev w) then (Status (own_status e True), w)
      else
        (case readFile e w of
           ReadFailed x \<Rightarrow> (ErrNull x, w)
         | ENOENT \<Rightarrow>
             (case writeFile e (unlocked_contents e) w of
                (Some x, w') \<Rightarrow> (ErrOnly x, w')
              | (None, w') \<Rightarrow> (Status (own_status e False), w'))
         | ReadOk contents \<Rightarrow>
             (let status = parse_status contents
              in if locked status \<and> pid status \<noteq> Some (int (process_pid e))
                 then (if getProcessPathByPID e (pid status)
                       then (Status status, w)
                       else (case writeFile e (unlocked_contents e) w of
                               (Some x, w') \<Rightarrow> (ErrOnly x, w')
                             | (None, w') \<Rightarrow> (Status (own_status e False), w')))
                 else (Status status, w))))"

text \<open>
  \<open>writeLock\<close>; the result is the argument of its callback.  \<open>localLock\<close> is assigned
  before the file is written.
\<close>

definition writeLock :: "env \<Rightarrow> bool \<Rightarrow> world \<Rightarrow> error option \<times> world" where
  "writeLock e lk w =
     (case readLock e w of
        (ErrNull x, w1) \<Rightarrow> (Some x, w1)
      | (ErrOnly x, w1) \<Rightarrow> (Some x, w1)
      | (Status status, w1) \<Rightarrow>
          (if locked status \<and> pid status \<noteq> Some (int (process_pid e))
           then (Some (Error ''Device is locked by another process, unable to write to lock file.''), w1)
           else (let contents = js ((if lk then ''1'' else ''0'') @ ''.'' @ toString_nat (process_pid e));
                     w2 = w1\<lparr>dev := (dev w1)\<lparr>localLock := lk\<rparr>\<rparr>
                 in writeFile e contents w2)))"

definition lock :: "env \<Rightarrow> world \<Rightarrow> error option \<times> world" where
  "lock e w = writeLock e True w"

definition unlock :: "env \<Rightarrow> world \<Rightarrow> error option \<times> world" where
  "unlock e w = writeLock e False w"

text \<open>
  \<open>isLocked\<close> tests \<open>typeof lock === 'object' && lock.locked\<close>.  After a read error the
  second argument is \<open>null\<close>, whose \<open>typeof\<close> is \<open>'object'\<close>, and the property access
  throws inside the callback.
\<close>

definition isLocked :: "env \<Rightarrow> world \<Rightarrow> bool outcome \<times> world" where
  "isLocked e w =
     (case readLock e w of
        (ErrNull x, w1) \<Rightarrow> (Uncaught (TypeError ''Cannot read property locked of null''), w1)
      | (ErrOnly x, w1) \<Rightarrow> (Resolved False, w1)
      | (Status status, w1) \<Rightarrow> (Resolved (locked status), w1))"

text \<open>
  \<open>isAvailable\<close> reads \<open>session.started\<close> in the executor of its promise.  With
  \<open>session\<close> null the access throws, which rejects the promise.  A \<open>DeviceSession\<close> has
  the properties \<open>validate\<close>, \<open>compare\<close>, \<open>compareAndValidate\<close>, \<open>destroy\<close> and
  \<open>getToken\<close> and no other, so \<open>session.started\<close> is \<open>undefined\<close> on every session.
\<close>

definition started :: "sref \<Rightarrow> jsval" where
  "started r = JUndefined"

definition isAvailable :: "env \<Rightarrow> world \<Rightarrow> bool outcome \<times> world" where
  "isAvailable e w =
     (case session (dev w) of
        None \<Rightarrow> (Rejected (TypeError ''Cannot read property started of null''), w)
      | Some s \<Rightarrow>
          (if started s = JBool True then (Resolved False, w)
           else (case isLocked e w of
                   (Resolved l, w1) \<Rightarrow> (if l then (Resolved False, w1) else (Resolved True, w1))
                 | (other, w1) \<Rightarrow> (other, w1))))"

text \<open>
  The guard of every session operation.  \<open>userSession\<close> is \<open>Some r\<close> when the argument
  is a \<open>DeviceSession\<close> object and \<open>None\<close> for any other value.  \<open>isBooted\<close> is the
  method of the subclass and \<open>action\<close> the body of the operation.  When
  \<open>compareAndValidate\<close> does not call its callback nothing settles the promise.
\<close>

definition ifBootedAndAvailableDoWithSessionOrReject ::
  "env \<Rightarrow> int \<Rightarrow> (world \<Rightarrow> (error option \<times> bool) \<times> world) \<Rightarrow> sref option \<Rightarrow>
   (world \<Rightarrow> 'a outcome \<times> world) \<Rightarrow> world \<Rightarrow> 'a outcome \<times> world" where
  "ifBootedAndAvailableDoWithSessionOrReject e now isBooted userSession action w =
     (case (userSession, session (dev w)) of
        (Some u, Some s) \<Rightarrow>
          (case compareAndValidate now s u (store w) of
             ((_, None), st1) \<Rightarrow> (Pending, w\<lparr>store := st1\<rparr>)
           | ((_, Some isValid), st1) \<Rightarrow>
               (if \<not> isValid then (Rejected INVALID_SESSION, w\<lparr>store := st1\<rparr>)
                else
                  (case readLock e (w\<lparr>store := st1\<rparr>) of
                     (ErrNull x, w2) \<Rightarrow> (Rejected x, w2)
                   | (ErrOnly x, w2) \<Rightarrow> (Rejected x, w2)
                   | (Status lk, w2) \<Rightarrow>
                       (if \<not> locked lk \<or> pid lk = Some (int (process_pid e))
                        then (case isBooted w2 of
                                ((Some x, _), w3) \<Rightarrow> (Rejected x, w3)
                              | ((None, booted), w3) \<Rightarrow>
                                  (if \<not> booted then (Rejected DEVICE_NOT_BOOTED_ERROR, w3)
                                   else action w3))
                        else (Rejected DEVICE_IS_LOCKED_ERROR, w2)))))
      | _ \<Rightarrow> (Rejected INVALID_SESSION, w))"

section \<open>Android/index.js: operations of an Android device\<close>

definition err_or_stderr :: "exec_res \<Rightarrow> error" where
  "err_or_stderr r = (case err r of Some x \<Rightarrow> x | None \<Rightarrow> Error (stderr r))"

text \<open>
  The command builders of \<open>AndroidDevice.SDK_COMMANDS\<close>, with their parameter names
  (\<open>serial'\<close> is the parameter \<open>serial\<close>).
\<close>

definition ADB_SHELL_INSTALL_APP :: "env \<Rightarrow> string \<Rightarrow> string \<Rightarrow> string" where
  "ADB_SHELL_INSTALL_APP e serial' apk =
     ANDROID_SDK_ADB e @ '' -s '' @ serial' @ '' install -r '' @ apk @ ''; ''"

definition ADB_SHELL_UNINSTALL_APP :: "env \<Rightarrow> string \<Rightarrow> string \<Rightarrow> string" where
  "ADB_SHELL_UNINSTALL_APP e serial' apk =
     ANDROID_SDK_ADB e @ '' -s '' @ serial' @ '' uninstall '' @ apk @ ''; ''"

definition ADB_SET_ACCELEROMETER_ROTATION_OFF :: "env \<Rightarrow> string \<Rightarrow> string" where
  "ADB_SET_ACCELEROMETER_ROTATION_OFF e serial' =
     ANDROID_SDK_ADB e @ '' -s '' @ serial'
       @ '' shell content insert --uri content://settings/system --bind name:s:accelerometer_rotation --bind value:i:0; ''"

definition ADB_SET_ORIENTATION_TO :: "env \<Rightarrow> string \<Rightarrow> int \<Rightarrow> string" where
  "ADB_SET_ORIENTATION_TO e serial' rotation =
     ADB_SET_ACCELEROMETER_ROTATION_OFF e serial' @ ANDROID_SDK_ADB e @ '' -s '' @ serial'
       @ '' shell content insert --uri content://settings/system --bind name:s:user_rotation --bind value:i:''
       @ toString_int rotation @ ''; ''"

text \<open>
  \<open>install\<close> and \<open>uninstall\<close>.  Both call their command builder with the arguments
  \<open>(apk, self.serial)\<close> and both test \<open>err || stdout\<close>.  The message for a non-string
  argument ends in \<open>typeof bundle\<close>, a name that is bound nowhere.
\<close>

definition AndroidDevice_install ::
  "env \<Rightarrow> int \<Rightarrow> (world \<Rightarrow> (error option \<times> bool) \<times> world) \<Rightarrow> sref option \<Rightarrow> jsval \<Rightarrow>
   world \<Rightarrow> string outcome \<times> world" where
  "AndroidDevice_install e now isBooted userSession apk w =
     ifBootedAndAvailableDoWithSessionOrReject e now isBooted userSession
       (\<lambda>w. case apk of
               JStr a \<Rightarrow>
                 (case exec e (ADB_SHELL_INSTALL_APP e a (ToString (serial (dev w)))) w of
                    (r, w1) \<Rightarrow>
                      (if err r \<noteq> None \<or> stdout r \<noteq> [] then (Rejected (err_or_stderr r), w1)
                       else (Resolved (stdout r), w1)))
             | _ \<Rightarrow>
                 (Rejected (Error ''AndroidDevice.install expected argument #0 (bundle) to be a string, but got: undefined''), w))
       w"

definition AndroidDevice_uninstall ::
  "env \<Rightarrow> int \<Rightarrow> (world \<Rightarrow> (error option \<times> bool) \<times> world) \<Rightarrow> sref option \<Rightarrow> jsval \<Rightarrow>
   world \<Rightarrow> string outcome \<times> world" where
  "AndroidDevice_uninstall e now isBooted userSession apk w =
     ifBootedAndAvailableDoWithSessionOrReject e now isBooted userSession
       (\<lambda>w. case apk of
               JStr a \<Rightarrow>
                 (case exec e (ADB_SHELL_UNINSTALL_APP e a (ToString (serial (dev w)))) w of
                    (r, w1) \<Rightarrow>
                      (if err r \<noteq> None \<or> stdout r \<noteq> [] then (Rejected (err_or_stderr r), w1)
                       else (Resolved (stdout r), w1)))
             | _ \<Rightarrow>
                 (Rejected (Error ''AndroidDevice.uninstall expected argument #0 (bundle) to be a string, but got: undefined''), w))
       w"

text \<open>
  \<open>rotateLeft\<close> and \<open>rotateRight\<close> change the closed-over \<open>orientation\<close> before the
  command runs and put the old value back when the command fails.
\<close>

definition AndroidDevice_rotateLeft ::
  "env \<Rightarrow> int \<Rightarrow> (world \<Rightarrow> (error option \<times> bool) \<times> world) \<Rightarrow> sref option \<Rightarrow>
   world \<Rightarrow> unit outcome \<times> world" where
  "AndroidDevice_rotateLeft e now isBooted userSession w =
     ifBootedAndAvailableDoWithSessionOrReject e now isBooted userSession
       (\<lambda>w. let oo = orientation (dev w);
                 decremented = oo - 1;
                 wrapped = (if decremented < 0 then 3 else decremented);
                 w1 = w\<lparr>dev := (dev w)\<lparr>orientation := wrapped\<rparr>\<rparr>
             in case exec e (ADB_SET_ORIENTATION_TO e (ToString (serial (dev w1))) wrapped) w1 of
                  (r, w2) \<Rightarrow>
                    (if err r \<noteq> None \<or> stderr r \<noteq> []
                     then (Rejected (err_or_stderr r), w2\<lparr>dev := (dev w2)\<lparr>orientation := oo\<rparr>\<rparr>)
                     else (Resolved (), w2)))
       w"

definition AndroidDevice_rotateRight ::
  "env \<Rightarrow> int \<Rightarrow> (world \<Rightarrow> (error option \<times> bool) \<times> world) \<Rightarrow> sref option \<Rightarrow>
   world \<Rightarrow> unit outcome \<times> world" where
  "AndroidDevice_rotateRight e now isBooted userSession w =
     ifBootedAndAvailableDoWithSessionOrReject e now isBooted userSession
       (\<lambda>w. let oo = orientation (dev w);
                 incremented = oo + 1;
                 wrapped = (if incremented > 3 then 0 else incremented);
                 w1 = w\<lparr>dev := (dev w)\<lparr>orientation := wrapped\<rparr>\<rparr>
             in case exec e (ADB_SET_ORIENTATION_TO e (ToString (serial (dev w1))) wrapped) w1 of
                  (r, w2) \<Rightarrow>
                    (if err r \<noteq> None \<or> stderr r \<noteq> []
                     then (Rejected (err_or_stderr r), w2\<lparr>dev := (dev w2)\<lparr>orientation := oo\<rparr>\<rparr>)
                     else (Resolved (), w2)))
       w"

section \<open>The iOS simulator: rotation through the application menu\<close>

text \<open>
  \<open>executeJXACommand\<close> hands the result over with \<open>done.call(x)\<close>, whose first argument
  is the \<open>this\<close> of the call: after a failure (\<open>err || stderr\<close>) the callback is called
  with no argument at all, after a success it is called with \<open>stdout\<close> as its first
  argument.  The result is that first argument.
\<close>

definition dquote :: string where
  "dquote = [CHR 0x22]"

definition squote :: string where
  "squote = [CHR 0x27]"

definition executeJXACommand :: "env \<Rightarrow> string \<Rightarrow> world \<Rightarrow> jsval \<times> world" where
  "executeJXACommand e command w =
     (case exec e (''osascript -l JavaScript -e '' @ dquote @ command @ dquote) w of
        (r, w1) \<Rightarrow> (if err r \<noteq> None \<or> stderr r \<noteq> [] then (JUndefined, w1) else (JStr (stdout r), w1)))"

definition hardware_menu_click :: "string \<Rightarrow> string" where
  "hardware_menu_click item =
     ''Application('' @ squote @ ''System Events'' @ squote
     @ '').applicationProcesses.whose({ unixId: '' @ squote @ '' + self.pid + '' @ squote
     @ '' }).menuBars.at(0).menuBarItems.byName('' @ squote @ ''Hardware'' @ squote
     @ '').menus.byName('' @ squote @ ''Hardware'' @ squote
     @ '').menuItems.byName('' @ squote @ item @ squote @ '').click();''"

definition iOSSimulatorDevice_rotateLeft ::
  "env \<Rightarrow> int \<Rightarrow> (world \<Rightarrow> (error option \<times> bool) \<times> world) \<Rightarrow> sref option \<Rightarrow>
   world \<Rightarrow> unit outcome \<times> world" where
  "iOSSimulatorDevice_rotateLeft e now isBooted userSession w =
     ifBootedAndAvailableDoWithSessionOrReject e now isBooted userSession
       (\<lambda>w. case executeJXACommand e (hardware_menu_click ''Rotate Left'') w of
               (cb_err, w1) \<Rightarrow>
                 (let o1 = (if \<not> truthy cb_err then orientation (dev w1) - 1 else orientation (dev w1));
                      o2 = (if o1 < 0 then 3 else o1);
                      w2 = w1\<lparr>dev := (dev w1)\<lparr>orientation := o2\<rparr>\<rparr>
                  in if truthy cb_err then (Rejected (Thrown cb_err), w2) else (Resolved (), w2)))
       w"

definition iOSSimulatorDevice_rotateRight ::
  "env \<Rightarrow> int \<Rightarrow> (world \<Rightarrow> (error option \<times> bool) \<times> world) \<Rightarrow> sref option \<Rightarrow>
   world \<Rightarrow> unit outcome \<times> world" where
  "iOSSimulatorDevice_rotateRight e now isBooted userSession w =
     ifBootedAndAvailableDoWithSessionOrReject e now isBooted userSession
       (\<lambda>w. case executeJXACommand e (hardware_menu_click ''Rotate Right'') w of
               (cb_err, w1) \<Rightarrow>
                 (let o1 = (if \<not> truthy cb_err then orientation (dev w1) + 1 else orientation (dev w1));
                      o2 = (if o1 > 3 then 0 else o1);
                      w2 = w1\<lparr>dev := (dev w1)\<lparr>orientation := o2\<rparr>\<rparr>
                  in if truthy cb_err then (Rejected (Thrown cb_err), w2) else (Resolved (), w2)))
       w"

section \<open>Discovery: the listings of simulators and of running Android devices\<close>

text \<open>
  \<open>iOSDevice.getSimulatorDeviceStatuses\<close> keeps four module variables: the flag
  \<open>WALKING_SIMS\<close>, the time \<open>LAST_SIM_WALK\<close> of the last start of \<open>xcrun simctl list\<close>,
  the cache and the queue of waiting callers.  A caller is a number; what its promise and
  callback receive is appended to \<open>sim_settled\<close>, and every command started to
  \<open>sim_execs\<close>.  A request and the completion of the command are two steps, so that
  requests can arrive between them.
\<close>

datatype sim_state = Shutdown | Booted

record sim_entry =
  sim_name :: string
  sim_udid :: string
  status :: bool

datatype 'c delivery = Delivered 'c | Failed error

record sim_walk =
  WALKING_SIMS :: bool
  LAST_SIM_WALK :: int
  SIM_DEVICE_CACHE :: "string \<rightharpoonup> sim_entry"
  SIM_DEVICE_QUEUE :: "nat list"
  sim_execs :: "string list"
  sim_settled :: "(nat \<times> (string \<rightharpoonup> sim_entry) delivery) list"

definition REFRESH_TIMEOUT :: int where
  "REFRESH_TIMEOUT = 1000"

definition getSimulatorDeviceStatuses :: "int \<Rightarrow> nat \<Rightarrow> sim_walk \<Rightarrow> sim_walk" where
  "getSimulatorDeviceStatuses now caller st =
     (if \<not> WALKING_SIMS st \<or> now - LAST_SIM_WALK st > REFRESH_TIMEOUT
      then st\<lparr>WALKING_SIMS := True,
               LAST_SIM_WALK := now,
               SIM_DEVICE_CACHE := Map.empty,
               SIM_DEVICE_QUEUE := SIM_DEVICE_QUEUE st @ [caller],
               sim_execs := sim_execs st @ [''xcrun simctl list'']\<rparr>
      else if \<not> WALKING_SIMS st
           then st\<lparr>sim_settled := sim_settled st @ [(caller, Delivered (SIM_DEVICE_CACHE st))]\<rparr>
           else st\<lparr>SIM_DEVICE_QUEUE := SIM_DEVICE_QUEUE st @ [caller]\<rparr>)"

text \<open>
  The callback of \<open>exec('xcrun simctl list')\<close>.  The matches of the regular expression
  \<open>PARSE_SIMULATOR_DEVICES\<close> in \<open>stdout\<close> are an input: triples of name, udid and state.
\<close>

definition cache_row ::
  "(string \<rightharpoonup> sim_entry) \<Rightarrow> string \<times> string \<times> sim_state \<Rightarrow> (string \<rightharpoonup> sim_entry)" where
  "cache_row cache res =
     (case res of (n, u, s) \<Rightarrow> cache(u \<mapsto> \<lparr>sim_name = n, sim_udid = u, status = (s = Booted)\<rparr>))"

definition simctl_list_done ::
  "error option \<Rightarrow> string \<Rightarrow> (string \<times> string \<times> sim_state) list \<Rightarrow> sim_walk \<Rightarrow> sim_walk" where
  "simctl_list_done err' stderr' matches st =
     (if err' \<noteq> None \<or> stderr' \<noteq> []
      then (let e = (case err' of Some x \<Rightarrow> x | None \<Rightarrow> Error stderr')
            in st\<lparr>sim_settled := sim_settled st @ map (\<lambda>waiter. (waiter, Failed e)) (SIM_DEVICE_QUEUE st),
                    SIM_DEVICE_QUEUE := [],
                    WALKING_SIMS := False\<rparr>)
      else (let cache = foldl cache_row (SIM_DEVICE_CACHE st) matches
            in st\<lparr>SIM_DEVICE_CACHE := cache,
                    sim_settled := sim_settled st @ map (\<lambda>waiter. (waiter, Delivered cache)) (SIM_DEVICE_QUEUE st),
                    SIM_DEVICE_QUEUE := [],
                    WALKING_SIMS := False\<rparr>))"

text \<open>
  \<open>AndroidDevice.listRunningDevices\<close> has the same shape.  Once \<open>FIRST_RUN\<close> is false it
  is its inner function \<open>onServerKilled\<close>; \<open>executeQueue\<close> ends a walk with the error or
  the parsed devices.
\<close>

record running_device =
  rd_serial :: string
  rd_booted :: bool
  rd_orientation :: int

record adb_walk =
  ADB_RUNNING_WALKING :: bool
  ADB_RUNNING_LAST :: int
  ADB_RUNNING_CACHE :: "string \<rightharpoonup> running_device"
  ADB_RUNNING_QUEUE :: "nat list"
  adb_execs :: "string list"
  adb_settled :: "(nat \<times> (string \<rightharpoonup> running_device) delivery) list"

definition ADB_RUNNING_TIMEOUT :: int where
  "ADB_RUNNING_TIMEOUT = 3000"

definition ADB_GET_RUNNING_DEVICES :: "env \<Rightarrow> string" where
  "ADB_GET_RUNNING_DEVICES e = ANDROID_SDK_ADB e @ '' devices;''"

definition onServerKilled :: "env \<Rightarrow> int \<Rightarrow> nat \<Rightarrow> adb_walk \<Rightarrow> adb_walk" where
  "onServerKilled e now caller st =
     (if \<not> ADB_RUNNING_WALKING st \<or> now - ADB_RUNNING_LAST st > ADB_RUNNING_TIMEOUT
      then st\<lparr>ADB_RUNNING_WALKING := True,
               ADB_RUNNING_LAST := now,
               ADB_RUNNING_CACHE := Map.empty,
               ADB_RUNNING_QUEUE := ADB_RUNNING_QUEUE st @ [caller],
               adb_execs := adb_execs st @ [ADB_GET_RUNNING_DEVICES e]\<rparr>
      else if \<not> ADB_RUNNING_WALKING st
           then st\<lparr>adb_settled := adb_settled st @ [(caller, Delivered (ADB_RUNNING_CACHE st))]\<rparr>
           else st\<lparr>ADB_RUNNING_QUEUE := ADB_RUNNING_QUEUE st @ [caller]\<rparr>)"

definition executeQueue ::
  "error option \<Rightarrow> (string \<rightharpoonup> running_device) \<Rightarrow> adb_walk \<Rightarrow> adb_walk" where
  "executeQueue err' res st =
     st\<lparr>adb_settled := adb_settled st
            @ map (\<lambda>waiter. (waiter, case err' of Some x \<Rightarrow> Failed x | None \<Rightarrow> Delivered res)) (ADB_RUNNING_QUEUE st),
        ADB_RUNNING_WALKING := False,
        ADB_RUNNING_QUEUE := []\<rparr>"

section \<open>Booting: the emulator and the simulator\<close>

text \<open>
  \<open>Android/Emulator.js\<close> and the simulator module each keep a module variable
  \<open>isBooting\<close>, an object keyed by device id; a missing key reads as false.  The
  subprocesses started with \<open>spawn\<close> are logged with their arguments.
\<close>

record boot_module =
  isBooting :: "string \<Rightarrow> bool"
  spawned :: "(string \<times> string list) list"

text \<open>
  How far a call of \<open>boot\<close> gets before it waits for the device: its promise is settled,
  or the subprocess has been spawned and the call goes on to poll the device.
\<close>

datatype boot_step = Settled "unit outcome" | Spawned

text \<open>
  \<open>findFirstAvailablePort\<close>: from \<open>STARTING_PORT\<close> upwards in steps of two until a port
  is not among the used ones.
\<close>

function first_free_port :: "nat list \<Rightarrow> nat \<Rightarrow> nat" where
  "first_free_port ports port =
     (if port \<in> set ports then first_free_port ports (port + 2) else port)"
  by pat_completeness auto
termination
proof (relation "measure (\<lambda>(ports, port). length (filter (\<lambda>p. port \<le> p) ports))")
  show "wf (measure (\<lambda>(ports, port). length (filter (\<lambda>p. port \<le> p) ports)))"
    by simp
next
  fix ports :: "nat list" and port :: nat
  assume mem: "port \<in> set ports"
  have eq: "filter (\<lambda>p. port + 2 \<le> p) ports
            = filter (\<lambda>p. port + 2 \<le> p) (filter (\<lambda>p. port \<le> p) ports)"
    by (induction ports) auto
  have "port \<in> set (filter (\<lambda>p. port \<le> p) ports)"
    using mem by simp
  then have "length (filter (\<lambda>p. port + 2 \<le> p) (filter (\<lambda>p. port \<le> p) ports))
             < length (filter (\<lambda>p. port \<le> p) ports)"
    by (rule length_filter_less) simp
  then show "((ports, port + 2), (ports, port))
             \<in> measure (\<lambda>(ports, port). length (filter (\<lambda>p. port \<le> p) ports))"
    using eq by simp
qed

definition STARTING_PORT :: nat where
  "STARTING_PORT = 5554"

definition findFirstAvailablePort :: "error + nat list \<Rightarrow> error + nat" where
  "findFirstAvailablePort usedPorts =
     (case usedPorts of
        Inl x \<Rightarrow> Inl x
      | Inr ports \<Rightarrow>
          (let port = first_free_port ports STARTING_PORT
           in if port > 5680
              then Inl (Error (''Too many emulators ports in use '' @ [CHR 0xE2, CHR 0x80, CHR 0x94]
                               @ '' no available ports!''))
              else Inr port))"

text \<open>The arguments one entry of \<open>options\<close> adds to the command line of the emulator.\<close>

definition option_args :: "string \<times> jsval \<Rightarrow> string list" where
  "option_args ko =
     (case ko of (k, v) \<Rightarrow>
        if k = ''gpu'' then [''-gpu'', if v = JStr ''off'' then ''off'' else ''on'']
        else if k = ''wipe'' then [''-wipe-data'']
        else if k = ''netspeed'' then (case v of JStr s \<Rightarrow> if s \<noteq> [] then [''-netspeed'', s] else [] | _ \<Rightarrow> [])
        else if k = ''proxy'' then (case v of JStr s \<Rightarrow> if s \<noteq> [] then [''-http-proxy'', s] else [] | _ \<Rightarrow> [])
        else [])"

text \<open>
  In \<open>Emulator.js\<close> the name \<open>Device\<close> is bound by \<open>require(__dirname, 'BaseDevice')\<close>.
  \<open>require\<close> takes one argument, so \<open>Device\<close> is the module of the directory, the
  constructor \<open>AndroidDevice\<close>; \<open>util.inherits\<close> links prototypes and copies no static
  property, and \<open>AndroidDevice\<close> defines none of the error constants.  The three
  rejections of \<open>boot\<close> that name \<open>Device.DEVICE_...\<close> therefore carry \<open>undefined\<close>.
  The simulator module reads the same constants from \<open>iOSDevice\<close>, with the same result.
\<close>

definition Device_DEVICE_IS_LOCKED_ERROR :: error where
  "Device_DEVICE_IS_LOCKED_ERROR = Thrown JUndefined"

definition Device_DEVICE_NOT_READY_ERROR :: error where
  "Device_DEVICE_NOT_READY_ERROR = Thrown JUndefined"

definition Device_DEVICE_ALREADY_BOOTED_ERROR :: error where
  "Device_DEVICE_ALREADY_BOOTED_ERROR = Thrown JUndefined"

text \<open>
  \<open>AndroidEmulatorDevice.boot\<close> up to the spawn of the emulator.  \<open>options\<close> is \<open>None\<close>
  when the argument is not an object; \<open>usedPorts\<close> is the result of
  \<open>AndroidDevice.getUsedPorts\<close>, the ports listed by \<open>adb devices\<close>.
\<close>

definition AndroidEmulatorDevice_boot ::
  "env \<Rightarrow> (world \<Rightarrow> (error option \<times> bool) \<times> world) \<Rightarrow> (error + nat list) \<Rightarrow>
   (string \<times> jsval) list option \<Rightarrow> world \<times> boot_module \<Rightarrow> boot_step \<times> world \<times> boot_module" where
  "AndroidEmulatorDevice_boot e isBooted usedPorts options wm =
     (case wm of (w, m) \<Rightarrow>
        (let opts = (case options of
                       None \<Rightarrow> [(''gpu'', JStr ''on''), (''netspeed'', JStr ''full'')]
                     | Some os \<Rightarrow> os)
         in case isLocked e w of
              (Resolved l, w1) \<Rightarrow>
                (if \<not> l
                 then (case isBooted w1 of
                         ((err', booted), w2) \<Rightarrow>
                           (if err' \<noteq> None \<or> \<not> booted
                            then (let m1 = m\<lparr>isBooting := (isBooting m)(dev_id (dev w2) := True)\<rparr>
                                  in case findFirstAvailablePort usedPorts of
                                       Inl x \<Rightarrow> (Settled (Rejected x), w2, m1)
                                     | Inr port \<Rightarrow>
                                         (let args = [''-avd'', avdId (dev w2), ''-port'', toString_nat port]
                                                     @ concat (map option_args opts)
                                          in (Spawned, w2,
                                              m1\<lparr>spawned := spawned m1 @ [(ANDROID_SDK_EMULATOR e, args)]\<rparr>)))
                            else (Settled (Rejected (if isBooting m (dev_id (dev w2))
                                                     then Device_DEVICE_NOT_READY_ERROR
                                                     else Device_DEVICE_ALREADY_BOOTED_ERROR)), w2, m)))
                 else (Settled (Rejected Device_DEVICE_IS_LOCKED_ERROR), w1, m))
            | (Rejected x, w1) \<Rightarrow> (Settled (Rejected x), w1, m)
            | (Pending, w1) \<Rightarrow> (Settled Pending, w1, m)
            | (Uncaught x, w1) \<Rightarrow> (Settled (Uncaught x), w1, m)))"

text \<open>
  \<open>iOSSimulatorDevice.boot\<close> up to the spawn of the simulator.  \<open>xcodePath\<close> is the
  result of \<open>iOSDevice.getXCodePath\<close> and \<open>mapping\<close> the result of
  \<open>mapUDIDSToRunningSimulators\<close>, the pids of the running simulators by udid.  The name
  of the executable is \<open>Simulator\<close>: \<open>simulatorProcessName\<close> is computed before the
  constructor of \<open>iOSDevice\<close> has set \<open>runtime\<close>, and \<open>undefined < 9.0\<close> is false.
  \<open>path.join\<close> is written as concatenation with \<open>/\<close>.
\<close>

definition FOCUS_COMMAND :: string where
  "FOCUS_COMMAND =
     ''osascript -l AppleScript -e '' @ squote @ ''tell application '' @ squote @ ''System Events''
     @ squote @ squote @ '' -e '' @ squote @ ''set frontmost of the first process whose unix id is ''
     @ squote @ '' + self.pid + '' @ squote @ '' to true'' @ squote @ '' -e '' @ squote
     @ ''end tell'' @ squote"

definition iOSSimulatorDevice_boot ::
  "env \<Rightarrow> (world \<Rightarrow> (error option \<times> bool) \<times> world) \<Rightarrow> (error + string) \<Rightarrow>
   (error + (string \<rightharpoonup> string)) \<Rightarrow> world \<times> boot_module \<Rightarrow> boot_step \<times> world \<times> boot_module" where
  "iOSSimulatorDevice_boot e isBooted xcodePath mapping wm =
     (case wm of (w, m) \<Rightarrow>
        (case isBooted w of
           ((err', booted), w1) \<Rightarrow>
             (if \<not> booted \<and> \<not> isBooting m (udid (dev w1))
              then (let m1 = m\<lparr>isBooting := (isBooting m)(udid (dev w1) := True)\<rparr>
                    in case xcodePath of
                         Inl x \<Rightarrow> (Settled (Rejected x), w1, m1)
                       | Inr xp \<Rightarrow>
                           (let simPath = xp @ ''/Applications/Simulator.app/Contents/MacOS/Simulator''
                            in (Spawned, w1,
                                m1\<lparr>spawned := spawned m1 @ [(simPath, [''-CurrentDeviceUDID'', udid (dev w1)])]\<rparr>)))
              else (case mapping of
                      Inl x \<Rightarrow> (Settled (Rejected x), w1, m)
                    | Inr running \<Rightarrow>
                        (case running (udid (dev w1)) of
                           Some p \<Rightarrow>
                             (case exec e FOCUS_COMMAND w1 of
                                (r, w2) \<Rightarrow>
                                  (Settled (Resolved ()), w2,
                                   m\<lparr>isBooting := (isBooting m)(udid (dev w2) := False)\<rparr>))
                         | None \<Rightarrow>
                             (Settled (Rejected (if isBooting m (udid (dev w1))
                                                 then Device_DEVICE_NOT_READY_ERROR
                                                 else Device_DEVICE_ALREADY_BOOTED_ERROR)), w1, m))))))"

section \<open>index.js and \<open>BaseDevice.deviceTypeIsValid\<close>: loading the drivers\<close>

text \<open>
  A driver module exports a value \<open>d\<close>: whether it is a function, its \<open>name\<close>, and its
  static properties (\<open>JUndefined\<close> for a property it does not have).
\<close>

record driver_class =
  is_Function :: bool
  class_name :: string
  static :: "string \<Rightarrow> jsval"

definition REQUIRED_STATIC_METHODS :: "string list" where
  "REQUIRED_STATIC_METHODS =
     [''getAllDevices'', ''getAvailableDevices'', ''getDevicesWithName'', ''getDeviceWithId'']"

definition REQUIRED_STATIC_PROPERTIES :: "(string \<times> string) list" where
  "REQUIRED_STATIC_PROPERTIES = [(''string'', ''PLATFORM'')]"

text \<open>
  \<open>deviceTypeIsValid\<close> returns \<open>false\<close> (\<open>None\<close>) for a value that is not a function and
  otherwise the array \<open>missing\<close>.
\<close>

definition deviceTypeIsValid :: "driver_class \<Rightarrow> string list option" where
  "deviceTypeIsValid deviceClass =
     (if \<not> is_Function deviceClass then None
      else Some
        (map (\<lambda>m. ''Method: '' @ m)
           (filter (\<lambda>m. \<not> truthy (static deviceClass m) \<or> static deviceClass m \<noteq> JFunction)
              REQUIRED_STATIC_METHODS)
         @ map (\<lambda>p. ''Property: '' @ snd p)
             (filter (\<lambda>p. static deviceClass (snd p) = JUndefined
                          \<or> typeof (static deviceClass (snd p)) \<notin> set (split_on CHR ''|'' (fst p)))
                REQUIRED_STATIC_PROPERTIES)))"

text \<open>The truthiness of what \<open>deviceTypeIsValid\<close> returns: an array is an object.\<close>

fun truthy_result :: "string list option \<Rightarrow> bool" where
  "truthy_result None = False"
| "truthy_result (Some missing) = True"

text \<open>
  The loop over \<open>config.drivers\<close>: \<open>require'\<close> loads a module, \<open>resolve'\<close> is
  \<open>path.resolve\<close>; the \<open>throw\<close> ends the loading of the library.
\<close>

fun load_drivers ::
  "(string \<Rightarrow> driver_class) \<Rightarrow> (string \<Rightarrow> string) \<Rightarrow> string list \<Rightarrow>
   (string \<rightharpoonup> driver_class) \<Rightarrow> error + (string \<rightharpoonup> driver_class)" where
  "load_drivers require' resolve' [] drivers = Inr drivers"
| "load_drivers require' resolve' (driverPath # rest) drivers =
     (let d = require' driverPath
      in if truthy_result (deviceTypeIsValid d)
         then load_drivers require' resolve' rest (drivers(driverPath \<mapsto> d))
         else Inl (Error (if class_name d \<noteq> []
                          then ''Device class '' @ class_name d @ '' ('' @ resolve' driverPath
                               @ '') is invalid and missing required methods and/or properties.''
                          else ''Device class at path '' @ resolve' driverPath
                               @ '' is invalid and missing required methods and/or properties.'')))"

section \<open>Predicates of the statements and concrete states\<close>

text \<open>
  The file operations of an acquisition succeed: the read reports no error other than a
  missing file, and the two contents \<open>lock\<close> may write can be written.
\<close>

definition locked_contents :: "env \<Rightarrow> jsstring" where
  "locked_contents e = js (''1.'' @ toString_nat (process_pid e))"



definition io_ok :: "env \<Rightarrow> bool" where
  "io_ok e = (readFile_error e = None
              \<and> writeFile_error e (unlocked_contents e) = None
              \<and> writeFile_error e (locked_contents e) = None)"

text \<open>
  A call passes the guards when the guard reaches the action; \<open>after_guards\<close> is the
  world the action then starts in (the guards refresh the session and may rewrite the
  lock file).
\<close>

definition passes_guards ::
  "env \<Rightarrow> int \<Rightarrow> (world \<Rightarrow> (error option \<times> bool) \<times> world) \<Rightarrow> sref option \<Rightarrow> world \<Rightarrow> bool" where
  "passes_guards e now isBooted userSession w =
     (fst (ifBootedAndAvailableDoWithSessionOrReject e now isBooted userSession
             (\<lambda>w'. (Resolved (), w')) w) = Resolved ())"

definition after_guards ::
  "env \<Rightarrow> int \<Rightarrow> (world \<Rightarrow> (error option \<times> bool) \<times> world) \<Rightarrow> sref option \<Rightarrow> world \<Rightarrow> world" where
  "after_guards e now isBooted userSession w =
     snd (ifBootedAndAvailableDoWithSessionOrReject e now isBooted userSession
            (\<lambda>w'. (Resolved (), w')) w)"

text \<open>
  A process with pid 4242 on a machine where the pids 999 and 4242 are alive, every file
  operation succeeds and every command succeeds silently; a booted emulator on which
  this process has started a session at time 1000; and the same emulator idle.
\<close>

definition quiet :: exec_res where
  "quiet = \<lparr>err = None, stdout = [], stderr = []\<rparr>"

definition fixture_env :: env where
  "fixture_env = \<lparr>process_pid = 4242,
                  getProcessPathByPID = (\<lambda>p. p = Some 999 \<or> p = Some 4242),
                  readFile_error = None,
                  writeFile_error = (\<lambda>c. None),
                  exec_result = (\<lambda>c. quiet),
                  ANDROID_SDK_ADB = ''adb'',
                  ANDROID_SDK_EMULATOR = ''emulator''\<rparr>"

definition fixture_store :: session_store where
  "fixture_store = snd (new_DeviceSession ''5f4dcc3b'' 1000 None empty_store)"

definition second_store :: session_store where
  "second_store = snd (new_DeviceSession ''9e107d9d'' 1500 None fixture_store)"

definition fixture_device :: device where
  "fixture_device = \<lparr>dev_name = ''Nexus 5'', dev_id = ''Nexus_5_API_23'', udid = ''Nexus_5_API_23'',
                     avdId = ''Nexus_5_API_23'', serial = Some ''emulator-5554'',
                     localLock = True, session = Some 0, orientation = 0\<rparr>"

definition fixture_world :: world where
  "fixture_world = \<lparr>dev = fixture_device, store = fixture_store,
                    lock_file = Some (js ''1.4242''), execs = []\<rparr>"

definition idle_world :: world where
  "idle_world = \<lparr>dev = fixture_device\<lparr>localLock := False, session := None\<rparr>,
                 store = empty_store, lock_file = Some (js ''0.4242''), execs = []\<rparr>"

definition reports_booted :: "world \<Rightarrow> (error option \<times> bool) \<times> world" where
  "reports_booted w = ((None, True), w)"

definition reports_not_booted :: "world \<Rightarrow> (error option \<times> bool) \<times> world" where
  "reports_not_booted w = ((None, False), w)"

text \<open>
  Variations: a backend whose commands print to \<open>stdout\<close>, and a backend whose commands
  fail.
\<close>

definition chatty_env :: env where
  "chatty_env = fixture_env\<lparr>exec_result := (\<lambda>c. \<lparr>err = None, stdout = ''Success'', stderr = []\<rparr>)\<rparr>"

definition failing_env :: env where
  "failing_env = fixture_env\<lparr>exec_result :=
     (\<lambda>c. \<lparr>err = Some (SystemError ''Command failed''), stdout = [], stderr = ''execution error''\<rparr>)\<rparr>"

text \<open>
  The simulator listing before any walk and after one completed walk started at time
  1000 by caller 1; a driver class without any static member; the boot module before any
  boot, after a first call of \<open>boot\<close> on the idle emulator, and after a second call made
  while the emulator is still starting (it is listed by \<open>adb devices\<close> on port 5554 and
  does not report as booted).
\<close>

definition sim_start :: sim_walk where
  "sim_start = \<lparr>WALKING_SIMS = False, LAST_SIM_WALK = 0, SIM_DEVICE_CACHE = Map.empty,
                SIM_DEVICE_QUEUE = [], sim_execs = [], sim_settled = []\<rparr>"

definition sim_walked :: sim_walk where
  "sim_walked = simctl_list_done None [] [(''iPhone SE'', ''UDID-A'', Shutdown)]
                  (getSimulatorDeviceStatuses 1000 1 sim_start)"

definition bare_driver :: driver_class where
  "bare_driver = \<lparr>is_Function = True, class_name = ''BareDriver'', static = (\<lambda>k. JUndefined)\<rparr>"

definition no_boots :: boot_module where
  "no_boots = \<lparr>isBooting = (\<lambda>k. False), spawned = []\<rparr>"

definition first_boot :: "boot_step \<times> world \<times> boot_module" where
  "first_boot = AndroidEmulatorDevice_boot fixture_env reports_not_booted (Inr []) None
                  (idle_world, no_boots)"

definition second_boot :: "boot_step \<times> world \<times> boot_module" where
  "second_boot = AndroidEmulatorDevice_boot fixture_env reports_not_booted (Inr [5554]) None
                   (snd first_boot)"

text \<open>The store of the session at time 1000 after a successful validation at time 2000.\<close>

definition refreshed_store :: session_store where
  "refreshed_store = fixture_store\<lparr>objects := (objects fixture_store)
                                      (0 := (objects fixture_store 0)\<lparr>lastUsed := 2000\<rparr>)\<rparr>"

section \<open>Evaluation lemmas\<close>

lemma digit_char_eval:
  "digit_char 0 = CHR ''0''" "digit_char 1 = CHR ''1''" "digit_char 2 = CHR ''2''"
  "digit_char 3 = CHR ''3''" "digit_char 4 = CHR ''4''" "digit_char 5 = CHR ''5''"
  "digit_char 6 = CHR ''6''" "digit_char 7 = CHR ''7''" "digit_char 8 = CHR ''8''"
  "digit_char 9 = CHR ''9''"
  by code_simp+

lemma parse_examples:
  "parse_status (js ''1.999'') = \<lparr>locked = True, pid = Some 999\<rparr>"
  "parse_status (js ''1.777'') = \<lparr>locked = True, pid = Some 777\<rparr>"
  "parse_status (js ''1.4242'') = \<lparr>locked = True, pid = Some 4242\<rparr>"
  "parse_status (js ''0.4242'') = \<lparr>locked = False, pid = Some 4242\<rparr>"
  by (simp_all add: js_def parse_status_def trim_def is_space_def parseInt_def is_digit_def
      digits_value_def Let_def)

text \<open>A byte order mark before the text and a line feed after it are trimmed.\<close>

lemma parse_trims_byte_order_mark:
  "parse_status (0xFEFF # js ''0.999'' @ [0x0A]) = \<lparr>locked = False, pid = Some 999\<rparr>"
  by (simp add: js_def parse_status_def trim_def is_space_def parseInt_def is_digit_def
      digits_value_def Let_def)

lemma parse_after_byte_order_mark:
  "parse_status (0xFEFF # js ''0.999'') = \<lparr>locked = False, pid = Some 999\<rparr>"
  by (simp add: js_def parse_status_def trim_def is_space_def parseInt_def is_digit_def
      digits_value_def Let_def)






lemma fixture_store_facts:
  "token (objects fixture_store 0) = Some ''5f4dcc3b''"
  "sessions fixture_store ''5f4dcc3b'' = Some (Ref 0)"
  "lastUsed (objects fixture_store 0) = 1000"
  "timeout (objects fixture_store 0) = 300000"
  by (simp_all add: fixture_store_def new_DeviceSession_def empty_store_def
      Let_def configured_timeout_def)

section \<open>Sessions: validation and destruction\<close>

lemma validate_test:
  "fst (validate now r st)
     = (now - lastUsed (objects st r) < timeout (objects st r)
        \<and> token_truthy (token (objects st r))
        \<and> slot_truthy (sessions st (ToString (token (objects st r)))))"
  by (simp add: validate_def Let_def)

lemma validate_true:
  "fst (validate now r st) \<Longrightarrow>
   snd (validate now r st) = st\<lparr>objects := (objects st)(r := (objects st r)\<lparr>lastUsed := now\<rparr>)\<rparr>"
  by (auto simp: validate_def Let_def split: if_splits)

lemma validate_false: "\<not> fst (validate now r st) \<Longrightarrow> snd (validate now r st) = destroy r st"
  by (auto simp: validate_def Let_def split: if_splits)

lemma destroy_token: "token (objects (destroy r st) r) = None"
  by (simp add: destroy_def Let_def)

lemma validate_without_token: "token (objects st r) = None \<Longrightarrow> \<not> fst (validate now r st)"
  by (simp add: validate_def Let_def)

lemma validate_after_destroy: "\<not> fst (validate now r (destroy r st))"
  by (simp add: validate_without_token destroy_token)

lemma destroy_idempotent: "destroy r (destroy r st) = destroy r st"
  by (simp add: destroy_def Let_def)

lemma destroy_keeps_entries: "t \<noteq> ''null'' \<Longrightarrow> sessions (destroy r st) t = sessions st t"
  by (simp add: destroy_def Let_def)

lemma validate_keeps_entries:
  "t \<noteq> ''null'' \<Longrightarrow> sessions (snd (validate now r st)) t = sessions st t"
  by (simp add: validate_def destroy_def Let_def)

lemma expired_validates_false:
  "timeout (objects st r) \<le> now - lastUsed (objects st r) \<Longrightarrow> validate now r st = (False, destroy r st)"
  by (simp add: validate_def Let_def)

text \<open>
  Claim C2 asks that \<open>validate\<close> is true exactly when the session is registered in the
  store and less than \<open>timeout\<close> has passed since \<open>lastUsed\<close>, that a true answer
  refreshes \<open>lastUsed\<close>, and that a false answer destroys the session, so that a session
  older than its \<open>timeout\<close> validates false and is destroyed.  A true answer does refresh
  \<open>lastUsed\<close> and changes nothing else (\<open>validate_true\<close>), and a session as old as its
  \<open>timeout\<close> or older validates false (\<open>expired_validates_false\<close>).  But the false answer
  only calls \<open>destroy\<close>, which leaves the entry of the session in the store
  (\<open>validate_keeps_entries\<close>).  The session created at time 1000 with the timeout of
  five minutes is registered under its token; at time 301001 it is older than its
  timeout and validates false, and the store still returns it for its token.  The
  equivalence fails on the same ground: after \<open>destroy\<close> at time 1500 the session is
  still held by the store and 100 ms later still younger than its timeout, and yet
  validates false.
\<close>

theorem expired_session_stays_registered:
  "getSessionByToken (Some ''5f4dcc3b'') fixture_store = Some 0
   \<and> timeout (objects fixture_store 0) < 301001 - lastUsed (objects fixture_store 0)
   \<and> \<not> fst (validate 301001 0 fixture_store)
   \<and> getSessionByToken (Some ''5f4dcc3b'') (snd (validate 301001 0 fixture_store)) = Some 0
   \<and> getSessionByToken (Some ''5f4dcc3b'') (destroy 0 fixture_store) = Some 0
   \<and> 1600 - lastUsed (objects (destroy 0 fixture_store) 0) < timeout (objects (destroy 0 fixture_store) 0)
   \<and> \<not> fst (validate 1600 0 (destroy 0 fixture_store))"
proof -
  have held: "getSessionByToken (Some ''5f4dcc3b'') fixture_store = Some 0"
    by (simp add: getSessionByToken_def fixture_store_facts)
  have old: "timeout (objects fixture_store 0) < 301001 - lastUsed (objects fixture_store 0)"
    by (simp add: fixture_store_facts)
  then have stale: "validate 301001 0 fixture_store = (False, destroy 0 fixture_store)"
    by (simp add: expired_validates_false)
  have kept: "getSessionByToken (Some ''5f4dcc3b'') (destroy 0 fixture_store) = Some 0"
    by (simp add: getSessionByToken_def destroy_keeps_entries fixture_store_facts)
  have young: "1600 - lastUsed (objects (destroy 0 fixture_store) 0)
               < timeout (objects (destroy 0 fixture_store) 0)"
    by (simp add: destroy_def Let_def fixture_store_facts)
  show ?thesis
    using held old kept young by (simp add: stale validate_after_destroy)
qed

text \<open>
  Claim C7 asks that after \<open>destroy\<close> the store has no entry for the token the session
  was created with.  It holds that a destroyed session never validates again
  (\<open>validate_after_destroy\<close>) and that a second \<open>destroy\<close> changes nothing
  (\<open>destroy_idempotent\<close>).  The entry, however, stays: \<open>destroy\<close> touches the key
  \<open>"null"\<close> only (\<open>destroy_keeps_entries\<close>), and for a session created with the token
  \<open>5f4dcc3b\<close> the lookup by that token still returns the session after \<open>destroy\<close>.
\<close>

theorem destroy_leaves_token_registered:
  "fst (new_DeviceSession ''5f4dcc3b'' 1000 None empty_store) = 0
   \<and> getSessionByToken (Some ''5f4dcc3b'')
        (destroy 0 (snd (new_DeviceSession ''5f4dcc3b'' 1000 None empty_store))) = Some 0"
  by (simp add: getSessionByToken_def destroy_def new_DeviceSession_def empty_store_def Let_def)

section \<open>The lock file: acquisition\<close>

lemmas lock_defs = lock_def writeLock_def readLock_def readFile_def writeFile_def io_ok_def
  own_status_def locked_contents_def Let_def




lemma acquire_missing_file:
  assumes "io_ok e" and "lock_file w = None"
  shows "fst (lock e w) = None \<and> lock_file (snd (lock e w)) = Some (locked_contents e)"
  using assms
  by (auto simp: lock_defs
      split: option.splits prod.splits lock_reply.splits read_result.splits if_splits)

text \<open>
  A file unlocked by the live process 999, with a byte order mark before the text, reads
  as unlocked, and \<open>lock\<close> acquires it.
\<close>

lemma acquire_after_byte_order_mark:
  "fst (lock fixture_env (idle_world\<lparr>lock_file := Some (0xFEFF # js ''0.999'')\<rparr>)) = None
   \<and> lock_file (snd (lock fixture_env (idle_world\<lparr>lock_file := Some (0xFEFF # js ''0.999'')\<rparr>)))
       = Some (js ''1.4242'')"
  by (simp add: lock_defs parse_after_byte_order_mark fixture_env_def idle_world_def
      fixture_device_def digit_char_eval)

text \<open>
  \<open>lock\<close> is a function local to the device; its one caller is \<open>startSession\<close>, which
  calls it after \<open>isLocked\<close> has answered false.  With the flag \<open>localLock\<close> set
  \<open>isLocked\<close> answers true, so the program calls \<open>lock\<close> with the flag clear.
\<close>

lemma flag_set_answers_locked: "localLock (dev w) \<Longrightarrow> isLocked e w = (Resolved True, w)"
  by (simp add: isLocked_def readLock_def own_status_def)



section \<open>The guard of the session operations\<close>

lemmas guard_defs = ifBootedAndAvailableDoWithSessionOrReject_def compareAndValidate_def
  compare_def

lemma guard_pass:
  "passes_guards e now isBooted userSession w \<Longrightarrow>
   ifBootedAndAvailableDoWithSessionOrReject e now isBooted userSession action w
     = action (after_guards e now isBooted userSession w)"
  by (auto simp: passes_guards_def after_guards_def ifBootedAndAvailableDoWithSessionOrReject_def
      split: option.splits prod.splits lock_reply.splits if_splits)

lemma guard_no_session:
  "userSession = None \<or> session (dev w) = None \<Longrightarrow>
   ifBootedAndAvailableDoWithSessionOrReject e now isBooted userSession action w
     = (Rejected INVALID_SESSION, w)"
  by (auto simp: ifBootedAndAvailableDoWithSessionOrReject_def split: option.splits)

lemma guard_invalid:
  "session (dev w) = Some s \<Longrightarrow> \<not> fst (validate now s (store w)) \<Longrightarrow>
   ifBootedAndAvailableDoWithSessionOrReject e now isBooted (Some s) action w
     = (Rejected INVALID_SESSION, w\<lparr>store := destroy s (store w)\<rparr>)"
  by (auto simp: guard_defs validate_def Let_def split: option.splits prod.splits if_splits)

lemma guard_mismatch:
  "session (dev w) = Some s \<Longrightarrow> u \<noteq> s \<Longrightarrow>
   ifBootedAndAvailableDoWithSessionOrReject e now isBooted (Some u) action w = (Pending, w)"
  by (simp add: guard_defs)

lemma fixture_session_valid: "validate 2000 0 fixture_store
    = (True, fixture_store\<lparr>objects := (objects fixture_store)(0 := (objects fixture_store 0)\<lparr>lastUsed := 2000\<rparr>)\<rparr>)"
  using validate_test [of 2000 0 fixture_store] validate_true [of 2000 0 fixture_store] fixture_store_facts
  by (simp add: prod_eq_iff)

lemma fixture_guard:
  "localLock d \<Longrightarrow> session d = Some 0 \<Longrightarrow>
   ifBootedAndAvailableDoWithSessionOrReject e 2000 reports_booted (Some 0) action
     (fixture_world\<lparr>dev := d\<rparr>)
   = action (fixture_world\<lparr>dev := d, store := refreshed_store\<rparr>)"
  by (simp add: guard_defs fixture_session_valid fixture_world_def readLock_def own_status_def
      reports_booted_def refreshed_store_def)

lemma fixture_world_dev: "fixture_world\<lparr>dev := fixture_device\<rparr> = fixture_world"
  by (simp add: fixture_world_def)

lemma fixture_device_facts: "localLock fixture_device" "session fixture_device = Some 0"
  "serial fixture_device = Some ''emulator-5554''" "orientation fixture_device = 0"
  by (simp_all add: fixture_device_def)

lemma fixture_passes: "passes_guards e 2000 reports_booted (Some 0) fixture_world"
  using fixture_guard [of fixture_device e "\<lambda>w'. (Resolved (), w')"]
  by (simp add: passes_guards_def fixture_world_dev fixture_device_facts)

lemma fixture_after_guards:
  "after_guards e 2000 reports_booted (Some 0) fixture_world = fixture_world\<lparr>store := refreshed_store\<rparr>"
  using fixture_guard [of fixture_device e "\<lambda>w'. (Resolved (), w')"]
  by (simp add: after_guards_def fixture_world_dev fixture_device_facts)

section \<open>Session operations with a session that is not the device's\<close>

lemma second_session_live: "fst (validate 2000 1 second_store)"
  by (simp add: validate_def second_store_def fixture_store_def new_DeviceSession_def
      empty_store_def Let_def configured_timeout_def)

text \<open>
  Claim C1 asks that a session operation called with a session that is not the current
  session of the device is rejected with \<open>INVALID_SESSION\<close>, runs no command and leaves
  the device as it is.  The rejection holds when the argument is no session at all, when
  the device has no session (\<open>guard_no_session\<close>) and when the device's own session
  fails validation (\<open>guard_invalid\<close>).  For another \<open>DeviceSession\<close> object it does not:
  \<open>compareAndValidate\<close> returns false without calling its callback, and the promise of
  the operation is never settled, whatever the operation (\<open>guard_mismatch\<close>).  Here the
  device holds session 0, the caller passes the live session 1, and \<open>install\<close> stays
  pending; no command runs and nothing changes.
\<close>

theorem guard_pending_on_other_session:
  "session (dev (fixture_world\<lparr>store := second_store\<rparr>)) = Some 0
   \<and> fst (validate 2000 1 second_store)
   \<and> AndroidDevice_install fixture_env 2000 reports_booted (Some 1) (JStr ''app.apk'')
        (fixture_world\<lparr>store := second_store\<rparr>)
      = (Pending, fixture_world\<lparr>store := second_store\<rparr>)"
  using second_session_live
  by (simp add: AndroidDevice_install_def guard_mismatch fixture_world_def fixture_device_facts)

theorem guard_pending_on_other_session_witness:
  "fst (AndroidDevice_install fixture_env 2000 reports_booted (Some 1) (JStr ''app.apk'')
          (fixture_world\<lparr>store := second_store\<rparr>)) \<noteq> Rejected INVALID_SESSION
   \<and> execs (snd (AndroidDevice_install fixture_env 2000 reports_booted (Some 1) (JStr ''app.apk'')
          (fixture_world\<lparr>store := second_store\<rparr>))) = []"
  using guard_pending_on_other_session by (simp add: fixture_world_def)

section \<open>Android install and uninstall\<close>

lemma install_outcome:
  assumes "passes_guards e now isBooted userSession w"
  shows "fst (AndroidDevice_install e now isBooted userSession (JStr apk) w)
         = (let r = exec_result e (ADB_SHELL_INSTALL_APP e apk
                      (ToString (serial (dev (after_guards e now isBooted userSession w)))))
            in if err r \<noteq> None \<or> stdout r \<noteq> [] then Rejected (err_or_stderr r)
               else Resolved (stdout r))"
  using assms
  by (simp add: AndroidDevice_install_def guard_pass exec_def Let_def split: prod.splits)

lemma uninstall_outcome:
  assumes "passes_guards e now isBooted userSession w"
  shows "fst (AndroidDevice_uninstall e now isBooted userSession (JStr apk) w)
         = (let r = exec_result e (ADB_SHELL_UNINSTALL_APP e apk
                      (ToString (serial (dev (after_guards e now isBooted userSession w)))))
            in if err r \<noteq> None \<or> stdout r \<noteq> [] then Rejected (err_or_stderr r)
               else Resolved (stdout r))"
  using assms
  by (simp add: AndroidDevice_uninstall_def guard_pass exec_def Let_def split: prod.splits)

text \<open>
  Claim C10.  Let a call of \<open>install\<close> or \<open>uninstall\<close> with a string argument pass the
  guards, and let \<open>r\<close> be the result of the \<open>adb\<close> command it runs.  If \<open>stdout\<close> is not
  empty the call is rejected, also when \<open>err\<close> is null and \<open>stderr\<close> is empty; the error
  is then \<open>new Error(stderr)\<close>.  The call resolves exactly when \<open>err\<close> is null and
  \<open>stdout\<close> is empty, and it resolves with that empty \<open>stdout\<close>.
\<close>

theorem install_rejects_on_stdout:
  assumes "passes_guards e now isBooted userSession w"
  shows "(let w3 = after_guards e now isBooted userSession w;
              r = exec_result e (ADB_SHELL_INSTALL_APP e apk (ToString (serial (dev w3))));
              out = fst (AndroidDevice_install e now isBooted userSession (JStr apk) w)
          in (stdout r \<noteq> [] \<longrightarrow> out = Rejected (err_or_stderr r))
           \<and> (err r = None \<and> stdout r \<noteq> [] \<longrightarrow> out = Rejected (Error (stderr r)))
           \<and> ((\<exists>v. out = Resolved v) = (err r = None \<and> stdout r = []))
           \<and> (err r = None \<and> stdout r = [] \<longrightarrow> out = Resolved []))
       \<and> (let w3 = after_guards e now isBooted userSession w;
              r = exec_result e (ADB_SHELL_UNINSTALL_APP e apk (ToString (serial (dev w3))));
              out = fst (AndroidDevice_uninstall e now isBooted userSession (JStr apk) w)
          in (stdout r \<noteq> [] \<longrightarrow> out = Rejected (err_or_stderr r))
           \<and> (err r = None \<and> stdout r \<noteq> [] \<longrightarrow> out = Rejected (Error (stderr r)))
           \<and> ((\<exists>v. out = Resolved v) = (err r = None \<and> stdout r = []))
           \<and> (err r = None \<and> stdout r = [] \<longrightarrow> out = Resolved []))"
  by (auto simp: install_outcome [OF assms] uninstall_outcome [OF assms] Let_def err_or_stderr_def)

lemma chatty_exec: "exec_result chatty_env c = \<lparr>err = None, stdout = ''Success'', stderr = []\<rparr>"
  by (simp add: chatty_env_def)

lemma fixture_exec: "exec_result fixture_env c = quiet" "err quiet = None" "stdout quiet = []" "stderr quiet = []"
  by (simp_all add: fixture_env_def quiet_def)

theorem install_rejects_on_stdout_witness:
  "fst (AndroidDevice_install chatty_env 2000 reports_booted (Some 0) (JStr ''app.apk'')
          fixture_world) = Rejected (Error [])
   \<and> fst (AndroidDevice_uninstall chatty_env 2000 reports_booted (Some 0) (JStr ''com.example.app'')
          fixture_world) = Rejected (Error [])
   \<and> fst (AndroidDevice_install fixture_env 2000 reports_booted (Some 0) (JStr ''app.apk'')
          fixture_world) = Resolved []"
proof -
  have a: "fst (AndroidDevice_install chatty_env 2000 reports_booted (Some 0) (JStr ''app.apk'')
          fixture_world) = Rejected (Error [])"
    using install_rejects_on_stdout [OF fixture_passes, of chatty_env "''app.apk''"]
    by (simp add: Let_def chatty_exec err_or_stderr_def)
  have b: "fst (AndroidDevice_uninstall chatty_env 2000 reports_booted (Some 0) (JStr ''com.example.app'')
          fixture_world) = Rejected (Error [])"
    using install_rejects_on_stdout [OF fixture_passes, of chatty_env "''com.example.app''"]
    by (simp add: Let_def chatty_exec err_or_stderr_def)
  have c: "fst (AndroidDevice_install fixture_env 2000 reports_booted (Some 0) (JStr ''app.apk'')
          fixture_world) = Resolved []"
    using install_rejects_on_stdout [OF fixture_passes, of fixture_env "''app.apk''"]
    by (simp add: Let_def fixture_exec)
  show ?thesis using a b c by simp
qed

section \<open>Availability\<close>

lemma isAvailable_without_session:
  "session (dev w) = None \<Longrightarrow>
   isAvailable e w = (Rejected (TypeError ''Cannot read property started of null''), w)"
  by (simp add: isAvailable_def)

lemma isAvailable_with_session:
  "session (dev w) = Some s \<Longrightarrow> isLocked e w = (Resolved l, w') \<Longrightarrow>
   isAvailable e w = (Resolved (\<not> l), w')"
  by (simp add: isAvailable_def started_def)

lemma idle_world_facts:
  "session (dev idle_world) = None" "\<not> localLock (dev idle_world)"
  "dev_id (dev idle_world) = ''Nexus_5_API_23''"
  by (simp_all add: idle_world_def fixture_device_def)

lemma idle_unlocked: "isLocked fixture_env idle_world = (Resolved False, idle_world)"
  by (simp add: isLocked_def readLock_def readFile_def idle_world_def fixture_env_def
      parse_examples)

text \<open>
  Claim C9 asks that \<open>isAvailable\<close> never fails and, on a device without a session,
  resolves to the negation of \<open>isLocked\<close>.  On a device with a session it does resolve
  to that negation (\<open>isAvailable_with_session\<close>).  Without a session the access
  \<open>session.started\<close> throws in the executor and the promise is rejected with the
  \<open>TypeError\<close>, whatever the lock file says: the idle emulator is not locked, and
  \<open>isAvailable\<close> is rejected where the claim says it resolves to true.
\<close>

theorem isAvailable_rejects_without_session:
  "session (dev idle_world) = None
   \<and> fst (isLocked fixture_env idle_world) = Resolved False
   \<and> fst (isAvailable fixture_env idle_world)
       = Rejected (TypeError ''Cannot read property started of null'')"
  by (simp add: isAvailable_without_session idle_unlocked idle_world_facts)

section \<open>Loading drivers\<close>

lemma function_is_registered:
  "is_Function (require' p) \<Longrightarrow>
   load_drivers require' resolve' [p] drivers = Inr (drivers(p \<mapsto> require' p))"
  by (simp add: deviceTypeIsValid_def)

lemma non_function_is_refused:
  "\<not> is_Function (require' p) \<Longrightarrow> \<exists>x. load_drivers require' resolve' (p # ps) drivers = Inl x"
  by (simp add: deviceTypeIsValid_def Let_def)

lemma bare_driver_missing:
  "deviceTypeIsValid bare_driver
   = Some [''Method: getAllDevices'', ''Method: getAvailableDevices'',
           ''Method: getDevicesWithName'', ''Method: getDeviceWithId'', ''Property: PLATFORM'']"
  by (simp add: deviceTypeIsValid_def bare_driver_def REQUIRED_STATIC_METHODS_def
      REQUIRED_STATIC_PROPERTIES_def)

text \<open>
  Claim C6 asks that a driver class without the four static methods or without
  \<open>PLATFORM\<close> is refused when the drivers are loaded.  \<open>deviceTypeIsValid\<close> returns the
  array of what is missing, and the loader tests that array for truthiness, which an
  array always has: every function is registered (\<open>function_is_registered\<close>) and only a
  value that is not a function is refused.  A class with no static member at all is
  reported to miss all five and is registered all the same.
\<close>

theorem incomplete_driver_is_registered:
  "deviceTypeIsValid bare_driver
     = Some [''Method: getAllDevices'', ''Method: getAvailableDevices'',
             ''Method: getDevicesWithName'', ''Method: getDeviceWithId'', ''Property: PLATFORM'']
   \<and> load_drivers (\<lambda>p. bare_driver) (\<lambda>p. p) [''./drivers/Bare''] Map.empty
       = Inr [''./drivers/Bare'' \<mapsto> bare_driver]"
  by (simp add: bare_driver_missing)

theorem incomplete_driver_is_registered_witness:
  "\<exists>drivers. load_drivers (\<lambda>p. bare_driver) (\<lambda>p. p) [''./drivers/Bare''] Map.empty = Inr drivers
              \<and> drivers ''./drivers/Bare'' = Some bare_driver"
  using incomplete_driver_is_registered by simp

section \<open>Discovery\<close>

lemma never_answers_from_cache:
  "sim_settled (getSimulatorDeviceStatuses now caller st) = sim_settled st"
  by (simp add: getSimulatorDeviceStatuses_def)

lemma idle_request_starts_walk:
  "\<not> WALKING_SIMS st \<Longrightarrow>
   getSimulatorDeviceStatuses now caller st
   = st\<lparr>WALKING_SIMS := True, LAST_SIM_WALK := now, SIM_DEVICE_CACHE := Map.empty,
          SIM_DEVICE_QUEUE := SIM_DEVICE_QUEUE st @ [caller],
          sim_execs := sim_execs st @ [''xcrun simctl list'']\<rparr>"
  by (simp add: getSimulatorDeviceStatuses_def)

lemma request_during_walk_is_queued:
  "WALKING_SIMS st \<Longrightarrow> now - LAST_SIM_WALK st \<le> REFRESH_TIMEOUT \<Longrightarrow>
   getSimulatorDeviceStatuses now caller st
   = st\<lparr>SIM_DEVICE_QUEUE := SIM_DEVICE_QUEUE st @ [caller]\<rparr>"
  by (simp add: getSimulatorDeviceStatuses_def)

lemma late_request_during_walk_starts_another:
  "WALKING_SIMS st \<Longrightarrow> REFRESH_TIMEOUT < now - LAST_SIM_WALK st \<Longrightarrow>
   sim_execs (getSimulatorDeviceStatuses now caller st) = sim_execs st @ [''xcrun simctl list'']"
  by (simp add: getSimulatorDeviceStatuses_def)

lemma waiters_share_the_result:
  "sim_settled (simctl_list_done None [] matches st)
   = sim_settled st
     @ map (\<lambda>waiter. (waiter, Delivered (foldl cache_row (SIM_DEVICE_CACHE st) matches)))
         (SIM_DEVICE_QUEUE st)"
  by (simp add: simctl_list_done_def Let_def)

lemma adb_never_answers_from_cache:
  "adb_settled (onServerKilled e now caller st) = adb_settled st"
  by (simp add: onServerKilled_def)

lemma adb_idle_request_starts_walk:
  "\<not> ADB_RUNNING_WALKING st \<Longrightarrow>
   adb_execs (onServerKilled e now caller st) = adb_execs st @ [ADB_GET_RUNNING_DEVICES e]"
  by (simp add: onServerKilled_def)

lemma sim_walked_facts:
  "\<not> WALKING_SIMS sim_walked" "LAST_SIM_WALK sim_walked = 1000"
  "sim_execs sim_walked = [''xcrun simctl list'']" "SIM_DEVICE_QUEUE sim_walked = []"
  "map fst (sim_settled sim_walked) = [1]"
  "SIM_DEVICE_CACHE sim_walked ''UDID-A''
     = Some \<lparr>sim_name = ''iPhone SE'', sim_udid = ''UDID-A'', status = False\<rparr>"
  by (simp_all add: sim_walked_def simctl_list_done_def getSimulatorDeviceStatuses_def
      sim_start_def cache_row_def Let_def REFRESH_TIMEOUT_def)

text \<open>
  Claim C4 asks that a request made while no walk is in flight and the cache is fresh is
  answered from the cache, without a subprocess.  The test of
  \<open>getSimulatorDeviceStatuses\<close> is \<open>!WALKING_SIMS || now - LAST_SIM_WALK > REFRESH_TIMEOUT\<close>,
  so a request with no walk in flight always starts one, and the branch that answers
  from the cache is never reached (\<open>never_answers_from_cache\<close>); a request during a walk
  that is older than the timeout starts a second walk
  (\<open>late_request_during_walk_starts_another\<close>).  \<open>onServerKilled\<close> has the same test.
  Requests during a walk within the timeout are queued and the waiters share one result,
  as claimed.  Here a walk started at time 1000 has completed and filled the cache; the
  request of caller 2 at time 1200 runs \<open>xcrun simctl list\<close> again, empties the cache and
  leaves the caller waiting.
\<close>

theorem fresh_cache_still_walks:
  "\<not> WALKING_SIMS sim_walked
   \<and> 1200 - LAST_SIM_WALK sim_walked \<le> REFRESH_TIMEOUT
   \<and> SIM_DEVICE_CACHE sim_walked ''UDID-A''
       = Some \<lparr>sim_name = ''iPhone SE'', sim_udid = ''UDID-A'', status = False\<rparr>
   \<and> sim_execs (getSimulatorDeviceStatuses 1200 2 sim_walked)
       = [''xcrun simctl list'', ''xcrun simctl list'']
   \<and> sim_settled (getSimulatorDeviceStatuses 1200 2 sim_walked) = sim_settled sim_walked
   \<and> SIM_DEVICE_QUEUE (getSimulatorDeviceStatuses 1200 2 sim_walked) = [2]
   \<and> SIM_DEVICE_CACHE (getSimulatorDeviceStatuses 1200 2 sim_walked) = Map.empty"
  by (simp add: sim_walked_facts idle_request_starts_walk REFRESH_TIMEOUT_def)

theorem fresh_cache_still_walks_witness:
  "length (sim_execs (getSimulatorDeviceStatuses 1200 2 sim_walked)) = 2
   \<and> length (sim_settled (getSimulatorDeviceStatuses 1200 2 sim_walked)) = 1"
proof -
  have "length (sim_settled sim_walked) = length (map fst (sim_settled sim_walked))"
    by simp
  then have "length (sim_settled sim_walked) = 1"
    by (simp only: sim_walked_facts) simp
  then show ?thesis
    using fresh_cache_still_walks by simp
qed

section \<open>Booting twice\<close>

lemma first_boot_result:
  "first_boot
   = (Spawned, idle_world,
      \<lparr>isBooting = (\<lambda>k. False)(''Nexus_5_API_23'' := True),
        spawned = [(''emulator'', [''-avd'', ''Nexus_5_API_23'', ''-port'', ''5554'',
                                   ''-gpu'', ''on'', ''-netspeed'', ''full''])]\<rparr>)"
  by (simp add: first_boot_def AndroidEmulatorDevice_boot_def idle_unlocked
      reports_not_booted_def findFirstAvailablePort_def STARTING_PORT_def no_boots_def
      option_args_def digit_char_eval Let_def)
     (simp add: idle_world_def fixture_device_def fixture_env_def)

lemma second_boot_result:
  "second_boot
   = (Spawned, idle_world,
      \<lparr>isBooting = (\<lambda>k. False)(''Nexus_5_API_23'' := True),
        spawned = [(''emulator'', [''-avd'', ''Nexus_5_API_23'', ''-port'', ''5554'',
                                   ''-gpu'', ''on'', ''-netspeed'', ''full'']),
                   (''emulator'', [''-avd'', ''Nexus_5_API_23'', ''-port'', ''5556'',
                                   ''-gpu'', ''on'', ''-netspeed'', ''full''])]\<rparr>)"
  by (simp add: second_boot_def first_boot_result AndroidEmulatorDevice_boot_def idle_unlocked
      reports_not_booted_def findFirstAvailablePort_def STARTING_PORT_def
      option_args_def digit_char_eval Let_def)
     (simp add: idle_world_def fixture_device_def fixture_env_def)

text \<open>
  Claim C5 asks that a call of \<open>boot\<close> made while another boot of the same device is in
  progress fails with \<open>DEVICE_NOT_READY_ERROR\<close> and spawns nothing.  The emulator's
  \<open>boot\<close> reads \<open>isBooting\<close> only after \<open>isBooted\<close> has answered true
  (\<open>android_boot_not_ready_only_when_booted\<close>); while the device is still starting
  \<open>isBooted\<close> answers false, and the call sets \<open>isBooting\<close> again and spawns another
  emulator (\<open>android_boot_spawns_when_not_booted\<close>).  The simulator's \<open>boot\<close> tests
  \<open>isBooting\<close> before it spawns and never spawns twice
  (\<open>simulator_boot_never_spawns_twice\<close>), but it resolves when the simulator process is
  already running (\<open>simulator_boot_resolves_while_booting\<close>).  Here the first call on
  the idle emulator spawns it and sets \<open>isBooting\<close>; the second call, made before the
  device reports as booted, spawns a second emulator on the next port.
\<close>

theorem second_boot_spawns_again:
  "fst first_boot = Spawned
   \<and> isBooting (snd (snd first_boot)) (dev_id (dev idle_world))
   \<and> fst second_boot = Spawned
   \<and> spawned (snd (snd second_boot))
       = [(''emulator'', [''-avd'', ''Nexus_5_API_23'', ''-port'', ''5554'',
                          ''-gpu'', ''on'', ''-netspeed'', ''full'']),
          (''emulator'', [''-avd'', ''Nexus_5_API_23'', ''-port'', ''5556'',
                          ''-gpu'', ''on'', ''-netspeed'', ''full''])]"
  by (simp add: first_boot_result second_boot_result idle_world_facts)

lemma android_boot_not_ready_only_when_booted:
  assumes "isLocked e w = (Resolved False, w1)" and "isBooted w1 = ((None, True), w2)"
  shows "AndroidEmulatorDevice_boot e isBooted usedPorts options (w, m)
         = (Settled (Rejected (if isBooting m (dev_id (dev w2))
                               then Device_DEVICE_NOT_READY_ERROR
                               else Device_DEVICE_ALREADY_BOOTED_ERROR)), w2, m)"
  using assms by (simp add: AndroidEmulatorDevice_boot_def Let_def)

lemma android_boot_spawns_when_not_booted:
  assumes "isLocked e w = (Resolved False, w1)" and "isBooted w1 = ((x, False), w2)"
    and "findFirstAvailablePort usedPorts = Inr port"
  shows "fst (AndroidEmulatorDevice_boot e isBooted usedPorts options (w, m)) = Spawned
         \<and> length (spawned (snd (snd (AndroidEmulatorDevice_boot e isBooted usedPorts options (w, m)))))
             = Suc (length (spawned m))"
  using assms by (simp add: AndroidEmulatorDevice_boot_def Let_def)

lemma simulator_boot_never_spawns_twice:
  assumes "isBooted w = ((x, booted), w1)" and "isBooting m (udid (dev w1))"
  shows "spawned (snd (snd (iOSSimulatorDevice_boot e isBooted xcodePath mapping (w, m))))
         = spawned m"
  using assms
  by (auto simp: iOSSimulatorDevice_boot_def exec_def split: sum.splits option.splits)

lemma simulator_boot_resolves_while_booting:
  assumes "isBooted w = ((x, booted), w1)" and "isBooting m (udid (dev w1))"
    and "running (udid (dev w1)) = Some p"
  shows "fst (iOSSimulatorDevice_boot e isBooted xcodePath (Inr running) (w, m))
         = Settled (Resolved ())"
  using assms
  by (auto simp: iOSSimulatorDevice_boot_def exec_def split: sum.splits option.splits)

section \<open>Rotation\<close>

lemma rotate_wrap_roundtrip:
  "0 \<le> (i::int) \<Longrightarrow> i \<le> 3 \<Longrightarrow>
   (let l = (if i - 1 < 0 then 3 else i - 1) in if l + 1 > 3 then 0 else l + 1) = i"
  by (simp add: Let_def)

lemma AndroidDevice_rotateLeft_orientation:
  assumes "passes_guards e now isBooted userSession w"
  shows "(let w3 = after_guards e now isBooted userSession w;
              oo = orientation (dev w3);
              wrapped = (if oo - 1 < 0 then 3 else oo - 1);
              r = exec_result e (ADB_SET_ORIENTATION_TO e (ToString (serial (dev w3))) wrapped);
              res = AndroidDevice_rotateLeft e now isBooted userSession w
          in if err r = None \<and> stderr r = []
             then fst res = Resolved () \<and> orientation (dev (snd res)) = wrapped
             else fst res = Rejected (err_or_stderr r) \<and> orientation (dev (snd res)) = oo)"
  using assms
  by (simp add: AndroidDevice_rotateLeft_def guard_pass exec_def Let_def split: prod.splits)

lemma AndroidDevice_rotateRight_orientation:
  assumes "passes_guards e now isBooted userSession w"
  shows "(let w3 = after_guards e now isBooted userSession w;
              oo = orientation (dev w3);
              wrapped = (if oo + 1 > 3 then 0 else oo + 1);
              r = exec_result e (ADB_SET_ORIENTATION_TO e (ToString (serial (dev w3))) wrapped);
              res = AndroidDevice_rotateRight e now isBooted userSession w
          in if err r = None \<and> stderr r = []
             then fst res = Resolved () \<and> orientation (dev (snd res)) = wrapped
             else fst res = Rejected (err_or_stderr r) \<and> orientation (dev (snd res)) = oo)"
  using assms
  by (simp add: AndroidDevice_rotateRight_def guard_pass exec_def Let_def split: prod.splits)

lemma failing_exec:
  "exec_result failing_env c
   = \<lparr>err = Some (SystemError ''Command failed''), stdout = [], stderr = ''execution error''\<rparr>"
  by (simp add: failing_env_def)

lemma android_rotateLeft_reverts_on_failure:
  "fst (AndroidDevice_rotateLeft failing_env 2000 reports_booted (Some 0)
          (fixture_world\<lparr>dev := fixture_device\<lparr>orientation := 1\<rparr>\<rparr>))
     = Rejected (SystemError ''Command failed'')
   \<and> orientation (dev (snd (AndroidDevice_rotateLeft failing_env 2000 reports_booted (Some 0)
          (fixture_world\<lparr>dev := fixture_device\<lparr>orientation := 1\<rparr>\<rparr>)))) = 1"
  by (simp add: AndroidDevice_rotateLeft_def fixture_guard fixture_device_facts exec_def
      failing_exec err_or_stderr_def Let_def)

text \<open>
  Claim C8 asks that \<open>rotateLeft\<close> and \<open>rotateRight\<close> wrap the orientation between 0 and
  3, undo each other, and leave the orientation as it was when the backend fails.  The
  Android device does so (\<open>AndroidDevice_rotateLeft_orientation\<close>,
  \<open>AndroidDevice_rotateRight_orientation\<close>, \<open>rotate_wrap_roundtrip\<close>).  On the simulator
  \<open>executeJXACommand\<close> passes the error as the receiver of \<open>done.call\<close>, so the callback
  of \<open>rotateLeft\<close> sees no error after a failed command: with orientation 1 and a
  failing \<open>osascript\<close> the call resolves and the orientation becomes 0.
\<close>

theorem simulator_rotate_on_backend_failure:
  "orientation (dev (fixture_world\<lparr>dev := fixture_device\<lparr>orientation := 1\<rparr>\<rparr>)) = 1
   \<and> err (exec_result failing_env
             (''osascript -l JavaScript -e '' @ dquote @ hardware_menu_click ''Rotate Left'' @ dquote))
       = Some (SystemError ''Command failed'')
   \<and> fst (iOSSimulatorDevice_rotateLeft failing_env 2000 reports_booted (Some 0)
          (fixture_world\<lparr>dev := fixture_device\<lparr>orientation := 1\<rparr>\<rparr>)) = Resolved ()
   \<and> orientation (dev (snd (iOSSimulatorDevice_rotateLeft failing_env 2000 reports_booted (Some 0)
          (fixture_world\<lparr>dev := fixture_device\<lparr>orientation := 1\<rparr>\<rparr>)))) = 0"
  by (simp add: iOSSimulatorDevice_rotateLeft_def fixture_guard fixture_device_facts
      executeJXACommand_def exec_def failing_exec Let_def)

end
